theory Spec2Isabelle
  imports Main
begin

section \<open>Values, acquisitions and signals\<close>

text \<open>
  The values that travel through the engine of \<^verbatim>\<open>mesoSPIM_Core.py\<close>. The engine stores,
  forwards and prints them and never computes with them, so a float is carried by its
  decimal text.
\<close>

datatype pyval = PStr string | PInt int | PFloat string | PBool bool

definition digit :: "nat \<Rightarrow> char" where
  "digit d = ''0123456789'' ! d"

function str_nat :: "nat \<Rightarrow> string" where
  "str_nat n = (if n < 10 then [digit n] else str_nat (n div 10) @ [digit (n mod 10)])"
  by pat_completeness auto
termination
  by (relation "measure id") auto

declare str_nat.simps [simp del]

text \<open>Python's \<^verbatim>\<open>str(value)\<close>.\<close>

fun str :: "pyval \<Rightarrow> string" where
  "str (PStr s) = s"
| "str (PInt i) = (if i < 0 then CHR ''-'' # str_nat (nat (- i)) else str_nat (nat i))"
| "str (PFloat s) = s"
| "str (PBool b) = (if b then ''True'' else ''False'')"

text \<open>
  One planned stack. \<^verbatim>\<open>utils/acquisitions.py\<close> is not part of the sources at hand: the
  keys are the ones the engine reads, and \<open>planes\<close> is the number that
  \<^verbatim>\<open>acq.get_image_count()\<close> returns.
\<close>

record acquisition =
  folder :: string
  filename :: string
  filter_acq :: string
  zoom :: pyval
  laser :: pyval
  intensity :: pyval
  shutter :: pyval
  x_pos :: pyval
  y_pos :: pyval
  f_pos :: pyval
  z_start :: pyval
  z_end :: pyval
  z_step :: pyval
  planes :: nat

text \<open>
  The dictionaries handed to the motion worker are the results of methods of the absent
  acquisition classes; a move records which method's result it carries.
\<close>

datatype target =
    Startpoint acquisition
  | ListStartpoint "acquisition list"
  | DeltaZ acquisition

text \<open>The dictionary that \<^verbatim>\<open>send_progress\<close> emits.\<close>

record progress =
  current_acq :: nat
  total_acqs :: nat
  current_image_in_acq :: nat
  images_in_acq :: nat
  total_image_count_p :: nat
  image_counter :: nat

text \<open>
  Everything the engine does to its collaborators: the signals it emits and the calls
  it makes on the shutters, the laser enabler, the waveform generator and the file
  system.
\<close>

datatype event =
    Finished
  | UpdateGuiFromState bool
  | StateRequest string pyval
  | StateRequestAndWait string pyval
  | Progress progress
  | PrepareImageSeries acquisition
  | AddImagesToImageSeries
  | EndImageSeries
  | MoveRelative target
  | MoveRelativeAndWait target
  | MoveAbsolute target
  | MoveAbsoluteAndWait target
  | LaserEnable pyval
  | ShutterLeftOpen
  | ShutterLeftClose
  | ShutterRightOpen
  | ShutterRightClose
  | CreateTasks
  | WriteWaveformsToTasks
  | StartTasks
  | RunTasks
  | StopTasks
  | CloseTasks
  | WriteFile string string

text \<open>
  What the Qt event loop hands to \<^verbatim>\<open>state_request_handler\<close> while a mode is running:
  \<open>StopRequest\<close> is the dictionary \<^verbatim>\<open>{'state': 'idle'}\<close>, \<open>ParamRequest k v\<close> is
  \<^verbatim>\<open>{k: v}\<close> for a key other than \<^verbatim>\<open>'state'\<close>. A request that names another imaging
  mode would start that mode from inside the running loop; such environments are not
  covered here.
\<close>

datatype request = StopRequest | ParamRequest string pyval

datatype error = NameError string | IndexError | OtherException string

section \<open>The engine's state\<close>

text \<open>
  \<open>state\<close> is the shared state singleton (created with a value for every key, so that
  a lookup does not fail), \<open>acq_list\<close> its entry \<^verbatim>\<open>'acq_list'\<close>. \<open>shutter_left\<close> and
  \<open>shutter_right\<close> are the two shutter devices (\<open>True\<close> is open). \<open>trace\<close> lists the
  events so far, oldest first. \<open>pending\<close> is the environment: the batches of requests
  that the successive calls of \<^verbatim>\<open>processEvents()\<close> will deliver, and none after the last.
\<close>

record core =
  state :: "string \<Rightarrow> pyval"
  acq_list :: "acquisition list"
  stopflag :: bool
  shutter_left :: bool
  shutter_right :: bool
  image_count :: nat
  acquisition_count :: nat
  total_acquisition_count :: nat
  total_image_count :: nat
  trace :: "event list"
  pending :: "request list list"

definition emit :: "event \<Rightarrow> core \<Rightarrow> core" where
  "emit e s = s\<lparr>trace := trace s @ [e]\<rparr>"

text \<open>
  Modelled from the spec: the handler that receives \<^verbatim>\<open>sig_state_request\<close> and
  \<^verbatim>\<open>sig_state_request_and_wait_until_done\<close> (the waveform generator's
  \<^verbatim>\<open>state_request_handler\<close>) is not part of the sources at hand. Following sections 3
  and 6 of the spec, a request stores its value under its key in the shared state; the
  key \<^verbatim>\<open>'state'\<close> is written by the engine itself.
\<close>

definition store_request :: "string \<Rightarrow> pyval \<Rightarrow> core \<Rightarrow> core" where
  "store_request key v s = (if key = ''state'' then s else s\<lparr>state := (state s)(key := v)\<rparr>)"

definition sig_state_request :: "string \<Rightarrow> pyval \<Rightarrow> core \<Rightarrow> core" where
  "sig_state_request key v s = store_request key v (emit (StateRequest key v) s)"

definition sig_state_request_and_wait_until_done :: "string \<Rightarrow> pyval \<Rightarrow> core \<Rightarrow> core" where
  "sig_state_request_and_wait_until_done key v s =
     store_request key v (emit (StateRequestAndWait key v) s)"

definition stop :: "core \<Rightarrow> core" where
  "stop s =
     emit Finished (emit (UpdateGuiFromState False)
       (s\<lparr>stopflag := True, state := (state s)(''state'' := PStr ''idle'')\<rparr>))"

definition send_progress :: "nat \<Rightarrow> nat \<Rightarrow> nat \<Rightarrow> nat \<Rightarrow> nat \<Rightarrow> nat \<Rightarrow> core \<Rightarrow> core" where
  "send_progress cur_acq tot_acqs cur_image images tot_images counter s =
     emit (Progress \<lparr>current_acq = cur_acq, total_acqs = tot_acqs,
       current_image_in_acq = cur_image, images_in_acq = images,
       total_image_count_p = tot_images, image_counter = counter\<rparr>) s"

definition set_filter :: "pyval \<Rightarrow> bool \<Rightarrow> core \<Rightarrow> core" where
  "set_filter v wait_until_done s =
     (if wait_until_done then sig_state_request_and_wait_until_done ''filter'' v s
      else sig_state_request ''filter'' v s)"

definition set_zoom :: "pyval \<Rightarrow> bool \<Rightarrow> core \<Rightarrow> core" where
  "set_zoom v wait_until_done s =
     (if wait_until_done then sig_state_request_and_wait_until_done ''zoom'' v s
      else sig_state_request ''zoom'' v s)"

definition set_laser :: "pyval \<Rightarrow> bool \<Rightarrow> core \<Rightarrow> core" where
  "set_laser v wait_until_done s =
     (let s1 = emit (LaserEnable v) s in
      if wait_until_done then sig_state_request_and_wait_until_done ''laser'' v s1
      else sig_state_request ''laser'' v s1)"

definition set_intensity :: "pyval \<Rightarrow> bool \<Rightarrow> core \<Rightarrow> core" where
  "set_intensity v wait_until_done s =
     (if wait_until_done then sig_state_request_and_wait_until_done ''intensity'' v s
      else sig_state_request ''intensity'' v s)"

definition set_camera_exposure_time :: "pyval \<Rightarrow> core \<Rightarrow> core" where
  "set_camera_exposure_time v s = sig_state_request ''camera_exposure_time'' v s"

definition set_camera_line_interval :: "pyval \<Rightarrow> core \<Rightarrow> core" where
  "set_camera_line_interval v s = sig_state_request ''camera_line_interval'' v s"

definition move_relative :: "target \<Rightarrow> bool \<Rightarrow> core \<Rightarrow> core" where
  "move_relative d wait_until_done s =
     (if wait_until_done then emit (MoveRelativeAndWait d) s else emit (MoveRelative d) s)"

definition move_absolute :: "target \<Rightarrow> bool \<Rightarrow> core \<Rightarrow> core" where
  "move_absolute d wait_until_done s =
     (if wait_until_done then emit (MoveAbsoluteAndWait d) s else emit (MoveAbsolute d) s)"

definition set_shutterconfig :: "pyval \<Rightarrow> core \<Rightarrow> core" where
  "set_shutterconfig shutterconfig s = s\<lparr>state := (state s)(''shutterconfig'' := shutterconfig)\<rparr>"

subsection \<open>Shutters\<close>

definition shutter_left_open :: "core \<Rightarrow> core" where
  "shutter_left_open s = emit ShutterLeftOpen (s\<lparr>shutter_left := True\<rparr>)"

definition shutter_left_close :: "core \<Rightarrow> core" where
  "shutter_left_close s = emit ShutterLeftClose (s\<lparr>shutter_left := False\<rparr>)"

definition shutter_right_open :: "core \<Rightarrow> core" where
  "shutter_right_open s = emit ShutterRightOpen (s\<lparr>shutter_right := True\<rparr>)"

definition shutter_right_close :: "core \<Rightarrow> core" where
  "shutter_right_close s = emit ShutterRightClose (s\<lparr>shutter_right := False\<rparr>)"

definition set_shutterstate :: "bool \<Rightarrow> core \<Rightarrow> core" where
  "set_shutterstate b s = s\<lparr>state := (state s)(''shutterstate'' := PBool b)\<rparr>"

definition open_shutters :: "core \<Rightarrow> core" where
  "open_shutters s =
     (let shutterconfig = state s ''shutterconfig'' in
      set_shutterstate True
        (if shutterconfig = PStr ''Both'' then shutter_right_open (shutter_left_open s)
         else if shutterconfig = PStr ''Left'' then shutter_right_close (shutter_left_open s)
         else if shutterconfig = PStr ''Right'' then shutter_left_close (shutter_right_open s)
         else shutter_left_open (shutter_right_open s)))"

definition close_shutters :: "core \<Rightarrow> core" where
  "close_shutters s = set_shutterstate False (shutter_right_close (shutter_left_close s))"

subsection \<open>Waveform tasks\<close>

definition snap_image :: "core \<Rightarrow> core" where
  "snap_image s =
     emit CloseTasks (emit StopTasks (emit RunTasks (emit StartTasks
       (emit WriteWaveformsToTasks (emit CreateTasks s)))))"

definition prepare_image_series :: "core \<Rightarrow> core" where
  "prepare_image_series s = emit WriteWaveformsToTasks (emit CreateTasks s)"

definition snap_image_in_series :: "core \<Rightarrow> core" where
  "snap_image_in_series s = emit StopTasks (emit RunTasks (emit StartTasks s))"

definition close_image_series :: "core \<Rightarrow> core" where
  "close_image_series s = emit CloseTasks s"

definition snap :: "core \<Rightarrow> core" where
  "snap s = emit Finished (close_shutters (snap_image (open_shutters s)))"

section \<open>Requests that arrive while a mode runs\<close>

text \<open>The keys that \<^verbatim>\<open>state_request_handler\<close> passes on to the waveform generator.\<close>

definition forwarded_keys :: "string list" where
  "forwarded_keys =
     [''samplerate'', ''sweeptime'', ''ETL_cfg_file'',
      ''etl_l_delay_%'', ''etl_l_ramp_rising_%'', ''etl_l_ramp_falling_%'',
      ''etl_l_amplitude'', ''etl_l_offset'',
      ''etl_r_delay_%'', ''etl_r_ramp_rising_%'', ''etl_r_ramp_falling_%'',
      ''etl_r_amplitude'', ''etl_r_offset'',
      ''galvo_l_frequency'', ''galvo_l_amplitude'', ''galvo_l_offset'',
      ''galvo_l_duty_cycle'', ''galvo_l_phase'',
      ''galvo_r_frequency'', ''galvo_r_amplitude'', ''galvo_r_offset'',
      ''galvo_r_duty_cycle'', ''galvo_r_phase'',
      ''laser_l_delay_%'', ''laser_l_pulse_%'', ''laser_l_max_amplitude'',
      ''laser_r_delay_%'', ''laser_r_pulse_%'', ''laser_r_max_amplitude'',
      ''camera_delay_%'', ''camera_pulse_%'']"

text \<open>
  One item of a request dictionary. \<open>StopRequest\<close> takes the branch \<^verbatim>\<open>'idle'\<close> of
  \<^verbatim>\<open>set_state\<close>.
\<close>

fun state_request_handler :: "request \<Rightarrow> core \<Rightarrow> core" where
  "state_request_handler StopRequest s = stop (sig_state_request ''state'' (PStr ''idle'') s)"
| "state_request_handler (ParamRequest key v) s =
     (if key = ''filter'' then set_filter v False s
      else if key = ''zoom'' then set_zoom v False s
      else if key = ''laser'' then set_laser v False s
      else if key = ''intensity'' then set_intensity v False s
      else if key = ''shutterconfig'' then set_shutterconfig v s
      else if key = ''camera_exposure_time'' then set_camera_exposure_time v s
      else if key = ''camera_line_interval'' then set_camera_line_interval v s
      else if key \<in> set forwarded_keys then sig_state_request key v s
      else s)"

text \<open>
  \<^verbatim>\<open>QtWidgets.QApplication.processEvents()\<close>: the next batch of the environment is
  handled, item by item.
\<close>

definition process_events :: "core \<Rightarrow> core" where
  "process_events s =
     (case pending s of
        [] \<Rightarrow> s
      | b # bs \<Rightarrow> fold state_request_handler b (s\<lparr>pending := bs\<rparr>))"

section \<open>The metadata file\<close>

definition write_line :: "string \<Rightarrow> string \<Rightarrow> pyval \<Rightarrow> string" where
  "write_line file key v =
     (if key \<noteq> [] then file @ ''['' @ key @ ''] '' @ str v @ [CHR 0x0A]
      else file @ [CHR 0x0A])"

text \<open>\<^verbatim>\<open>os.path.basename\<close> and \<^verbatim>\<open>os.path.dirname\<close>, as \<^verbatim>\<open>posixpath\<close> defines them.\<close>

definition basename :: "string \<Rightarrow> string" where
  "basename p = rev (takeWhile (\<lambda>c. c \<noteq> CHR ''/'') (rev p))"

definition dirname :: "string \<Rightarrow> string" where
  "dirname p =
     (let head = rev (dropWhile (\<lambda>c. c \<noteq> CHR ''/'') (rev p)) in
      if head \<noteq> [] \<and> filter (\<lambda>c. c \<noteq> CHR ''/'') head \<noteq> []
      then rev (dropWhile (\<lambda>c. c = CHR ''/'') (rev head))
      else head)"

text \<open>The calls of \<^verbatim>\<open>write_line\<close> in \<^verbatim>\<open>write_metadata\<close>, in their order.\<close>

definition metadata_lines :: "acquisition \<Rightarrow> (string \<Rightarrow> pyval) \<Rightarrow> (string \<times> pyval) list" where
  "metadata_lines acq st =
     [(''Metadata for file'', PStr (folder acq @ filename acq)),
      (''z_stepsize'', z_step acq),
      ([], PStr []),
      (''CFG'', PStr []),
      (''Laser'', laser acq),
      (''Intensity (%)'', intensity acq),
      (''Zoom'', zoom acq),
      (''Pixelsize in um'', st ''pixelsize''),
      (''Filter'', PStr (filter_acq acq)),
      (''Shutter'', shutter acq),
      ([], PStr []),
      (''POSTION'', PStr []),
      (''x_pos'', x_pos acq),
      (''y_pos'', y_pos acq),
      (''f_pos'', f_pos acq),
      (''z_start'', z_start acq),
      (''z_end'', z_end acq),
      (''z_stepsize'', z_step acq),
      (''z_planes'', PInt (int (planes acq))),
      ([], PStr []),
      (''ETL PARAMETERS'', PStr []),
      (''ETL CFG File'', st ''ETL_cfg_file''),
      (''etl_l_offset'', st ''etl_l_offset''),
      (''etl_l_amplitude'', st ''etl_l_amplitude''),
      (''etl_r_offset'', st ''etl_r_offset''),
      (''etl_r_amplitude'', st ''etl_r_amplitude''),
      ([], PStr []),
      (''GALVO PARAMETERS'', PStr []),
      (''galvo_l_frequency'', st ''galvo_l_frequency''),
      (''galvo_l_amplitude'', st ''galvo_l_amplitude''),
      (''galvo_l_offset'', st ''galvo_l_offset''),
      (''galvo_r_amplitude'', st ''galvo_r_amplitude''),
      (''galvo_r_offset'', st ''galvo_r_offset''),
      ([], PStr []),
      (''CAMERA PARAMETERS'', PStr []),
      (''camera_exposure'', st ''camera_exposure_time''),
      (''camera_line_interval'', st ''camera_line_interval'')]"

definition metadata_text :: "acquisition \<Rightarrow> (string \<Rightarrow> pyval) \<Rightarrow> string" where
  "metadata_text acq st = foldl (\<lambda>file (key, v). write_line file key v) [] (metadata_lines acq st)"

definition metadata_path :: "acquisition \<Rightarrow> string" where
  "metadata_path acq =
     (let path = folder acq @ filename acq
      in dirname path @ ''/'' @ basename path @ ''_meta.txt'')"

definition write_metadata :: "acquisition \<Rightarrow> core \<Rightarrow> core" where
  "write_metadata acq s = emit (WriteFile (metadata_path acq) (metadata_text acq (state s))) s"

section \<open>Running an acquisition list\<close>

text \<open>
  Modelled from the spec: \<^verbatim>\<open>AcquisitionList.get_image_count\<close> is not part of the sources
  at hand; section 3 of the spec describes it as the total image count across the members.
\<close>

definition get_image_count :: "acquisition list \<Rightarrow> nat" where
  "get_image_count acqs = sum_list (map planes acqs)"

definition prepare_acquisition_list :: "acquisition list \<Rightarrow> core \<Rightarrow> core" where
  "prepare_acquisition_list acqs s =
     s\<lparr>image_count := 0, acquisition_count := 0,
       total_acquisition_count := length acqs,
       total_image_count := get_image_count acqs\<rparr>"

definition prepare_acquisition :: "acquisition \<Rightarrow> core \<Rightarrow> core" where
  "prepare_acquisition acq s =
     write_metadata acq
       (prepare_image_series
         (emit (PrepareImageSeries acq)
           (set_intensity (intensity acq) True
             (set_laser (laser acq) True
               (set_zoom (zoom acq) True
                 (set_filter (PStr (filter_acq acq)) True
                   (set_shutterconfig (shutter acq)
                     (move_absolute (Startpoint acq) True s))))))))"

text \<open>One pass of the loop over the planes, after the check of the stop flag.\<close>

definition plane :: "acquisition \<Rightarrow> nat \<Rightarrow> nat \<Rightarrow> core \<Rightarrow> core" where
  "plane acq steps i s =
     (let s1 = s\<lparr>image_count := image_count s + 1\<rparr>;
          s2 = emit AddImagesToImageSeries (snap_image_in_series s1);
          s3 = process_events s2;
          s4 = move_relative (DeltaZ acq) True s3
      in send_progress (acquisition_count s4) (total_acquisition_count s4) i steps
           (total_image_count s4) (image_count s4) s4)"

text \<open>\<^verbatim>\<open>for i in range(steps)\<close>, with its \<^verbatim>\<open>break\<close>.\<close>

fun planes_loop :: "acquisition \<Rightarrow> nat \<Rightarrow> nat list \<Rightarrow> core \<Rightarrow> core" where
  "planes_loop acq steps [] s = s"
| "planes_loop acq steps (i # rest) s =
     (if stopflag s then emit EndImageSeries (close_image_series s)
      else planes_loop acq steps rest (plane acq steps i s))"

definition run_acquisition :: "acquisition \<Rightarrow> core \<Rightarrow> core" where
  "run_acquisition acq s =
     (let steps = planes acq in
      close_shutters (planes_loop acq steps [0..<steps] (open_shutters s)))"

definition close_acquisition :: "acquisition \<Rightarrow> core \<Rightarrow> core" where
  "close_acquisition acq s =
     (let s1 = (if \<not> stopflag s
                then close_image_series (move_absolute (Startpoint acq) True s)
                else s);
          s2 = emit EndImageSeries s1
      in s2\<lparr>acquisition_count := acquisition_count s2 + 1\<rparr>)"

text \<open>The body of the loop of \<^verbatim>\<open>run_acquisition_list\<close>; what it computes for display is unused.\<close>

definition acquire :: "acquisition \<Rightarrow> core \<Rightarrow> core" where
  "acquire acq s = close_acquisition acq (run_acquisition acq (prepare_acquisition acq s))"

fun run_acquisition_list :: "acquisition list \<Rightarrow> core \<Rightarrow> core" where
  "run_acquisition_list [] s = s"
| "run_acquisition_list (acq # rest) s = run_acquisition_list rest (acquire acq s)"

definition close_acquisition_list :: "acquisition list \<Rightarrow> core \<Rightarrow> core" where
  "close_acquisition_list acqs s =
     emit Finished (if \<not> stopflag s then move_absolute (ListStartpoint acqs) False s else s)"

text \<open>\<^verbatim>\<open>self.state['acq_list'][row]\<close>, with Python's indexing.\<close>

definition getitem :: "'a list \<Rightarrow> int \<Rightarrow> error + 'a" where
  "getitem xs i =
     (if 0 \<le> i \<and> i < int (length xs) then Inr (xs ! nat i)
      else if i < 0 \<and> - int (length xs) \<le> i then Inr (xs ! nat (int (length xs) + i))
      else Inl IndexError)"

text \<open>
  The part of \<^verbatim>\<open>start\<close> that follows the choice of the list. The test for a rotation
  only prints.
\<close>

definition run_list :: "acquisition list \<Rightarrow> core \<Rightarrow> core" where
  "run_list acqs s =
     emit (UpdateGuiFromState False)
       (close_acquisition_list acqs
         (run_acquisition_list acqs
           (prepare_acquisition_list acqs (emit (UpdateGuiFromState True) s))))"

text \<open>The list that \<^verbatim>\<open>start(row)\<close> runs: the whole list for \<open>None\<close>, or the row alone.\<close>

definition chosen_list :: "int option \<Rightarrow> core \<Rightarrow> error + acquisition list" where
  "chosen_list row s =
     (case row of
        None \<Rightarrow> Inr (acq_list s)
      | Some r \<Rightarrow>
          (case getitem (acq_list s) r of
             Inl e \<Rightarrow> Inl e
           | Inr acquisition \<Rightarrow> Inr [acquisition]))"

definition start :: "int option \<Rightarrow> core \<Rightarrow> error + core" where
  "start row s =
     (let s1 = s\<lparr>stopflag := False\<rparr> in
      case chosen_list row s1 of
        Inl e \<Rightarrow> Inl e
      | Inr acqs \<Rightarrow> Inr (run_list acqs s1))"

section \<open>The modes that loop until a stop is requested\<close>

text \<open>
  The record updates that make up the operations, for unfolding.
\<close>

lemmas ops =
  emit_def store_request_def sig_state_request_def sig_state_request_and_wait_until_done_def
  stop_def send_progress_def set_filter_def set_zoom_def set_laser_def set_intensity_def
  set_camera_exposure_time_def set_camera_line_interval_def move_relative_def
  move_absolute_def set_shutterconfig_def shutter_left_open_def shutter_left_close_def
  shutter_right_open_def shutter_right_close_def set_shutterstate_def open_shutters_def
  close_shutters_def snap_image_def prepare_image_series_def snap_image_in_series_def
  close_image_series_def Let_def

lemma pending_state_request_handler: "pending (state_request_handler r s) = pending s"
  by (cases r) (simp_all add: ops)

declare state_request_handler.simps [simp del]

lemma pending_fold_handler: "pending (fold state_request_handler b s) = pending s"
  by (induction b arbitrary: s) (simp_all add: pending_state_request_handler)

lemma pending_process_events: "pending (process_events s) = tl (pending s)"
  by (simp add: process_events_def pending_fold_handler split: list.splits)

lemma pending_open_shutters: "pending (open_shutters s) = pending s"
  by (simp add: ops)

lemma pending_close_shutters: "pending (close_shutters s) = pending s"
  by (simp add: ops)

lemma pending_snap_image: "pending (snap_image s) = pending s"
  by (simp add: ops)

lemma pending_snap_image_in_series: "pending (snap_image_in_series s) = pending s"
  by (simp add: ops)

text \<open>
  \<^verbatim>\<open>while self.stopflag is False\<close> in \<^verbatim>\<open>live\<close>. The flag changes only when a request
  is handled: once the environment has nothing left to deliver and the flag is unset, the
  loop never ends, which is the value \<open>None\<close>.
\<close>

function live_loop :: "core \<Rightarrow> core option" where
  "live_loop s =
     (if stopflag s then Some s
      else if pending s = [] then None
      else live_loop (open_shutters (process_events (snap_image s))))"
  by pat_completeness auto
termination
  by (relation "measure (\<lambda>s. length (pending s))")
     (auto simp: pending_open_shutters pending_process_events pending_snap_image)

declare live_loop.simps [simp del]

definition live :: "core \<Rightarrow> core option" where
  "live s =
     (case live_loop (open_shutters (s\<lparr>stopflag := False\<rparr>)) of
        None \<Rightarrow> None
      | Some s' \<Rightarrow> Some (emit Finished (close_shutters s')))"

function visual_loop :: "core \<Rightarrow> core option" where
  "visual_loop s =
     (if stopflag s then Some s
      else if pending s = [] then None
      else visual_loop (open_shutters (process_events (snap_image_in_series s))))"
  by pat_completeness auto
termination
  by (relation "measure (\<lambda>s. length (pending s))")
     (auto simp: pending_open_shutters pending_process_events pending_snap_image_in_series)

declare visual_loop.simps [simp del]

definition visual_mode :: "core \<Rightarrow> core option" where
  "visual_mode s =
     (let old_l_amp = state s ''etl_l_amplitude'';
          old_r_amp = state s ''etl_r_amplitude'';
          s1 = sig_state_request ''etl_r_amplitude'' (PInt 0)
                 (sig_state_request ''etl_l_amplitude'' (PInt 0) s);
          s2 = prepare_image_series s1;
          s3 = s2\<lparr>stopflag := False\<rparr>
      in case visual_loop (open_shutters s3) of
           None \<Rightarrow> None
         | Some s4 \<Rightarrow>
             Some (sig_state_request ''etl_r_amplitude'' old_r_amp
                    (sig_state_request ''etl_l_amplitude'' old_l_amp
                      (emit Finished (close_shutters (close_image_series s4))))))"

text \<open>
  The names that the module binds: its imports and its class. A name that is read and is
  not among them (nor a builtin) raises \<^verbatim>\<open>NameError\<close>.
\<close>

definition module_names :: "string list" where
  "module_names =
     [''os'', ''np'', ''time'', ''signal'', ''csv'', ''traceback'',
      ''QtWidgets'', ''QtCore'', ''QtGui'',
      ''mesoSPIM_StateSingleton'', ''NI_Shutter'', ''mesoSPIM_HamamatsuCamera'',
      ''mesoSPIM_LaserEnabler'', ''mesoSPIM_Serial'', ''mesoSPIM_WaveFormGenerator'',
      ''AcquisitionList'', ''Acquisition'', ''mesoSPIM_Core'']"

definition name_bound :: "string \<Rightarrow> bool" where
  "name_bound n = (n \<in> set module_names)"

text \<open>
  One pass of the loop of \<^verbatim>\<open>lightsheet_alignment_mode\<close>. Its last statement reads the
  bare name \<^verbatim>\<open>QApplication\<close>, where the other modes read \<^verbatim>\<open>QtWidgets.QApplication\<close>.
  A pass that raises gives the exception and the engine as the exception leaves it.
\<close>

definition alignment_pass :: "core \<Rightarrow> (error \<times> core) + core" where
  "alignment_pass s =
     (let s1 = shutter_left_close (snap_image (shutter_left_open s));
          s2 = shutter_right_close (snap_image (shutter_right_open s1))
      in if name_bound ''QApplication'' then Inr (process_events s2)
         else Inl (NameError ''QApplication'', s2))"

function alignment_loop :: "core \<Rightarrow> (error \<times> core) + core" where
  "alignment_loop s =
     (if stopflag s then Inr s
      else case alignment_pass s of
             Inl e \<Rightarrow> Inl e
           | Inr s' \<Rightarrow> alignment_loop s')"
  by pat_completeness auto
termination
  by (relation "{}") (auto simp: alignment_pass_def name_bound_def module_names_def)

declare alignment_loop.simps [simp del]

definition lightsheet_alignment_mode :: "core \<Rightarrow> (error \<times> core) + core" where
  "lightsheet_alignment_mode s =
     (case alignment_loop (s\<lparr>stopflag := False\<rparr>) of
        Inl e \<Rightarrow> Inl e
      | Inr s' \<Rightarrow> Inr (emit Finished (close_shutters s')))"

section \<open>Scripts\<close>





section \<open>Construction\<close>

text \<open>
  The engine as \<^verbatim>\<open>__init__\<close> leaves it, from the defaults of the shared state, its
  acquisition list and the environment to come.
\<close>

definition init_core :: "(string \<Rightarrow> pyval) \<Rightarrow> acquisition list \<Rightarrow> request list list \<Rightarrow> core" where
  "init_core defaults acqs env =
     \<lparr>state = defaults(''shutterstate'' := PBool False, ''state'' := PStr ''idle''),
      acq_list = acqs, stopflag = False, shutter_left = False, shutter_right = False,
      image_count = 0, acquisition_count = 0, total_acquisition_count = 0,
      total_image_count = 0, trace = [ShutterLeftClose, ShutterRightClose],
      pending = env\<rparr>"

section \<open>Observations on a trace\<close>

definition open_tasks :: "event list \<Rightarrow> int" where
  "open_tasks tr = int (count_list tr CreateTasks) - int (count_list tr CloseTasks)"

fun progress_of :: "event list \<Rightarrow> progress list" where
  "progress_of [] = []"
| "progress_of (Progress p # tr) = p # progress_of tr"
| "progress_of (e # tr) = progress_of tr"

text \<open>The events since the engine was in \<open>s\<close>.\<close>

definition emitted :: "core \<Rightarrow> core \<Rightarrow> event list" where
  "emitted s s' = drop (length (trace s)) (trace s')"

text \<open>The events that handling a request can produce.\<close>

fun signal_only :: "event \<Rightarrow> bool" where
  "signal_only Finished = True"
| "signal_only (UpdateGuiFromState b) = True"
| "signal_only (StateRequest k v) = True"
| "signal_only (LaserEnable v) = True"
| "signal_only e = False"

text \<open>No batch holds a stop request.\<close>

definition stop_free :: "request list list \<Rightarrow> bool" where
  "stop_free bs = list_all (\<lambda>b. StopRequest \<notin> set b) bs"

text \<open>The engine after \<^verbatim>\<open>stop()\<close>: the flag is set and the state is \<^verbatim>\<open>'idle'\<close>.\<close>

definition halted :: "core \<Rightarrow> bool" where
  "halted s = (stopflag s \<and> state s ''state'' = PStr ''idle'')"

text \<open>The events of \<^verbatim>\<open>open_shutters\<close> under a shutter configuration.\<close>

definition open_events :: "pyval \<Rightarrow> event list" where
  "open_events c =
     (if c = PStr ''Both'' then [ShutterLeftOpen, ShutterRightOpen]
      else if c = PStr ''Left'' then [ShutterLeftOpen, ShutterRightClose]
      else if c = PStr ''Right'' then [ShutterRightOpen, ShutterLeftClose]
      else [ShutterRightOpen, ShutterLeftOpen])"

text \<open>Whether the loop over the planes comes to its \<^verbatim>\<open>break\<close>.\<close>

fun breaks :: "acquisition \<Rightarrow> nat \<Rightarrow> nat list \<Rightarrow> core \<Rightarrow> bool" where
  "breaks a st [] s = False"
| "breaks a st (i # rest) s = (if stopflag s then True else breaks a st rest (plane a st i s))"

text \<open>The files written, with their contents, in order.\<close>

fun files_of :: "event list \<Rightarrow> (string \<times> string) list" where
  "files_of [] = []"
| "files_of (WriteFile p c # tr) = (p, c) # files_of tr"
| "files_of (e # tr) = files_of tr"

section \<open>Facts about the operations\<close>

lemma stopflag_handler: "stopflag (state_request_handler r s) = (stopflag s \<or> r = StopRequest)"
  by (cases r) (simp_all add: ops state_request_handler.simps)

lemma stopflag_fold_handler:
  "stopflag (fold state_request_handler b s) = (stopflag s \<or> StopRequest \<in> set b)"
  by (induction b arbitrary: s) (auto simp: stopflag_handler)

lemma idle_handler:
  "state (state_request_handler r s) ''state'' = (if r = StopRequest then PStr ''idle'' else state s ''state'')"
  by (cases r) (simp_all add: ops state_request_handler.simps)

lemma idle_fold_handler:
  "state (fold state_request_handler b s) ''state'' =
     (if StopRequest \<in> set b then PStr ''idle'' else state s ''state'')"
  by (induction b arbitrary: s) (auto simp: idle_handler)

lemma handler_fields:
  "image_count (state_request_handler r s) = image_count s"
  "acquisition_count (state_request_handler r s) = acquisition_count s"
  "total_acquisition_count (state_request_handler r s) = total_acquisition_count s"
  "total_image_count (state_request_handler r s) = total_image_count s"
  "shutter_left (state_request_handler r s) = shutter_left s"
  "shutter_right (state_request_handler r s) = shutter_right s"
  "acq_list (state_request_handler r s) = acq_list s"
  by (cases r, simp_all add: ops state_request_handler.simps)+

lemma fold_handler_fields:
  "image_count (fold state_request_handler b s) = image_count s"
  "acquisition_count (fold state_request_handler b s) = acquisition_count s"
  "total_acquisition_count (fold state_request_handler b s) = total_acquisition_count s"
  "total_image_count (fold state_request_handler b s) = total_image_count s"
  "shutter_left (fold state_request_handler b s) = shutter_left s"
  "shutter_right (fold state_request_handler b s) = shutter_right s"
  "acq_list (fold state_request_handler b s) = acq_list s"
  by (induction b arbitrary: s, simp_all add: handler_fields)+

lemma process_events_fields:
  "image_count (process_events s) = image_count s"
  "acquisition_count (process_events s) = acquisition_count s"
  "total_acquisition_count (process_events s) = total_acquisition_count s"
  "total_image_count (process_events s) = total_image_count s"
  "shutter_left (process_events s) = shutter_left s"
  "shutter_right (process_events s) = shutter_right s"
  "acq_list (process_events s) = acq_list s"
  by (simp_all add: process_events_def fold_handler_fields split: list.splits)

lemma progress_of_append: "progress_of (xs @ ys) = progress_of xs @ progress_of ys"
  by (induction xs rule: progress_of.induct) simp_all

lemma progress_handler: "progress_of (trace (state_request_handler r s)) = progress_of (trace s)"
  by (cases r) (simp_all add: ops progress_of_append state_request_handler.simps)

lemma progress_fold_handler:
  "progress_of (trace (fold state_request_handler b s)) = progress_of (trace s)"
  by (induction b arbitrary: s) (simp_all add: progress_handler)

lemma progress_process_events: "progress_of (trace (process_events s)) = progress_of (trace s)"
  by (simp add: process_events_def progress_fold_handler split: list.splits)

lemma count_handler:
  "\<not> signal_only e \<Longrightarrow> count_list (trace (state_request_handler r s)) e = count_list (trace s) e"
  by (cases r; cases e) (simp_all add: ops state_request_handler.simps)

lemma count_fold_handler:
  "\<not> signal_only e \<Longrightarrow> count_list (trace (fold state_request_handler b s)) e = count_list (trace s) e"
  by (induction b arbitrary: s) (simp_all add: count_handler)

lemma count_process_events:
  "\<not> signal_only e \<Longrightarrow> count_list (trace (process_events s)) e = count_list (trace s) e"
  by (simp add: process_events_def count_fold_handler split: list.splits)

lemma stopflag_process_events:
  "stopflag (process_events s) =
     (stopflag s \<or> (pending s \<noteq> [] \<and> StopRequest \<in> set (hd (pending s))))"
  by (simp add: process_events_def stopflag_fold_handler split: list.splits)

lemma idle_process_events:
  "state (process_events s) ''state'' =
     (if pending s \<noteq> [] \<and> StopRequest \<in> set (hd (pending s)) then PStr ''idle''
      else state s ''state'')"
  by (simp add: process_events_def idle_fold_handler split: list.splits)

lemma plane_fields:
  "image_count (plane a st i s) = Suc (image_count s)"
  "acquisition_count (plane a st i s) = acquisition_count s"
  "total_acquisition_count (plane a st i s) = total_acquisition_count s"
  "total_image_count (plane a st i s) = total_image_count s"
  "pending (plane a st i s) = tl (pending s)"
  "stopflag (plane a st i s) =
     (stopflag s \<or> (pending s \<noteq> [] \<and> StopRequest \<in> set (hd (pending s))))"
  by (simp_all add: plane_def ops process_events_fields pending_process_events
        stopflag_process_events)

lemma plane_idle:
  "state (plane a st i s) ''state'' =
     (if pending s \<noteq> [] \<and> StopRequest \<in> set (hd (pending s)) then PStr ''idle''
      else state s ''state'')"
  by (simp add: plane_def ops idle_process_events)

lemma plane_progress:
  "progress_of (trace (plane a st i s)) =
     progress_of (trace s) @
       [\<lparr>current_acq = acquisition_count s, total_acqs = total_acquisition_count s,
         current_image_in_acq = i, images_in_acq = st,
         total_image_count_p = total_image_count s, image_counter = Suc (image_count s)\<rparr>]"
  by (simp add: plane_def ops process_events_fields progress_of_append progress_process_events)

lemma plane_count:
  "\<not> signal_only e \<Longrightarrow> progress_of [e] = [] \<Longrightarrow>
   count_list (trace (plane a st i s)) e =
     count_list (trace s) e +
     count_list [StartTasks, RunTasks, StopTasks, AddImagesToImageSeries,
                 MoveRelativeAndWait (DeltaZ a)] e"
  by (cases e) (simp_all add: plane_def ops process_events_fields count_process_events)

lemma fold_plane_fields:
  "image_count (fold (plane a st) is s) = image_count s + length is"
  "acquisition_count (fold (plane a st) is s) = acquisition_count s"
  "total_acquisition_count (fold (plane a st) is s) = total_acquisition_count s"
  "total_image_count (fold (plane a st) is s) = total_image_count s"
  "pending (fold (plane a st) is s) = drop (length is) (pending s)"
  by (induction "is" arbitrary: s, simp_all add: plane_fields drop_Suc)+

lemma fold_plane_counters:
  "map image_counter (progress_of (trace (fold (plane a st) is s))) =
     map image_counter (progress_of (trace s)) @
       [Suc (image_count s)..<Suc (image_count s + length is)]"
proof (induction "is" arbitrary: s)
  case Nil
  then show ?case by simp
next
  case (Cons i "is")
  have "[Suc (image_count s)..<Suc (image_count s + length (i # is))] =
      Suc (image_count s) # [Suc (Suc (image_count s))..<Suc (Suc (image_count s) + length is)]"
    by (simp add: upt_rec)
  then show ?case
    by (simp add: Cons.IH plane_fields plane_progress)
qed

lemma fold_plane_totals:
  "map total_image_count_p (progress_of (trace (fold (plane a st) is s))) =
     map total_image_count_p (progress_of (trace s)) @
       replicate (length is) (total_image_count s)"
  by (induction "is" arbitrary: s) (simp_all add: plane_fields plane_progress)

lemma fold_plane_count:
  "\<not> signal_only e \<Longrightarrow> progress_of [e] = [] \<Longrightarrow>
   count_list (trace (fold (plane a st) is s)) e =
     count_list (trace s) e +
     length is * count_list [StartTasks, RunTasks, StopTasks, AddImagesToImageSeries,
                 MoveRelativeAndWait (DeltaZ a)] e"
  by (induction "is" arbitrary: s) (simp_all add: plane_count)

lemma quiet_fold_plane:
  "\<not> stopflag s \<Longrightarrow> stop_free (take (length is) (pending s)) \<Longrightarrow>
   \<not> stopflag (fold (plane a st) is s)"
proof (induction "is" arbitrary: s)
  case Nil
  then show ?case by simp
next
  case (Cons i "is")
  have "\<not> stopflag (plane a st i s)"
    using Cons.prems by (cases "pending s") (simp_all add: plane_fields stop_free_def)
  moreover have "stop_free (take (length is) (pending (plane a st i s)))"
    using Cons.prems by (cases "pending s") (simp_all add: plane_fields stop_free_def)
  ultimately show ?case
    using Cons.IH by simp
qed

lemma quiet_planes_loop:
  "\<not> stopflag s \<Longrightarrow> stop_free (take (length is) (pending s)) \<Longrightarrow>
   planes_loop a st is s = fold (plane a st) is s"
proof (induction "is" arbitrary: s)
  case Nil
  then show ?case by simp
next
  case (Cons i "is")
  have "\<not> stopflag (plane a st i s)"
    using Cons.prems by (cases "pending s") (simp_all add: plane_fields stop_free_def)
  moreover have "stop_free (take (length is) (pending (plane a st i s)))"
    using Cons.prems by (cases "pending s") (simp_all add: plane_fields stop_free_def)
  ultimately show ?case
    using Cons.IH Cons.prems(1) by simp
qed

lemma halted_planes_loop:
  "stopflag s \<Longrightarrow> planes_loop a st is s =
     (if is = [] then s else emit EndImageSeries (close_image_series s))"
  by (cases "is") simp_all

lemma open_shutters_fields:
  "image_count (open_shutters s) = image_count s"
  "acquisition_count (open_shutters s) = acquisition_count s"
  "total_acquisition_count (open_shutters s) = total_acquisition_count s"
  "total_image_count (open_shutters s) = total_image_count s"
  "stopflag (open_shutters s) = stopflag s"
  "pending (open_shutters s) = pending s"
  "state (open_shutters s) k = (if k = ''shutterstate'' then PBool True else state s k)"
  "trace (open_shutters s) = trace s @ open_events (state s ''shutterconfig'')"
  by (simp_all add: ops open_events_def)

lemma close_shutters_fields:
  "image_count (close_shutters s) = image_count s"
  "acquisition_count (close_shutters s) = acquisition_count s"
  "total_acquisition_count (close_shutters s) = total_acquisition_count s"
  "total_image_count (close_shutters s) = total_image_count s"
  "stopflag (close_shutters s) = stopflag s"
  "pending (close_shutters s) = pending s"
  "state (close_shutters s) k = (if k = ''shutterstate'' then PBool False else state s k)"
  "trace (close_shutters s) = trace s @ [ShutterLeftClose, ShutterRightClose]"
  "shutter_left (close_shutters s) = False"
  "shutter_right (close_shutters s) = False"
  by (simp_all add: ops)

lemma metadata_text_cong:
  "(\<And>k. k \<notin> {''shutterconfig'', ''filter'', ''zoom'', ''laser'', ''intensity'', ''shutterstate'', ''state''}
      \<Longrightarrow> st' k = st k) \<Longrightarrow>
   metadata_text a st' = metadata_text a st"
  by (simp add: metadata_text_def metadata_lines_def)

lemma prepare_fields:
  "image_count (prepare_acquisition a s) = image_count s"
  "acquisition_count (prepare_acquisition a s) = acquisition_count s"
  "total_acquisition_count (prepare_acquisition a s) = total_acquisition_count s"
  "total_image_count (prepare_acquisition a s) = total_image_count s"
  "stopflag (prepare_acquisition a s) = stopflag s"
  "pending (prepare_acquisition a s) = pending s"
  "shutter_left (prepare_acquisition a s) = shutter_left s"
  "shutter_right (prepare_acquisition a s) = shutter_right s"
  "state (prepare_acquisition a s) ''shutterconfig'' = shutter a"
  "state (prepare_acquisition a s) ''state'' = state s ''state''"
  by (simp_all add: prepare_acquisition_def write_metadata_def ops)

lemma prepare_state:
  "k \<notin> {''shutterconfig'', ''filter'', ''zoom'', ''laser'', ''intensity''} \<Longrightarrow>
   state (prepare_acquisition a s) k = state s k"
  by (simp add: prepare_acquisition_def write_metadata_def ops)

lemma prepare_trace:
  "trace (prepare_acquisition a s) =
     trace s @
       [MoveAbsoluteAndWait (Startpoint a),
        StateRequestAndWait ''filter'' (PStr (filter_acq a)),
        StateRequestAndWait ''zoom'' (zoom a),
        LaserEnable (laser a),
        StateRequestAndWait ''laser'' (laser a),
        StateRequestAndWait ''intensity'' (intensity a),
        PrepareImageSeries a,
        CreateTasks, WriteWaveformsToTasks,
        WriteFile (metadata_path a) (metadata_text a (state s))]"
proof -
  have "metadata_text a (state (set_intensity (intensity a) True
          (set_laser (laser a) True (set_zoom (zoom a) True
            (set_filter (PStr (filter_acq a)) True
              (set_shutterconfig (shutter a) (move_absolute (Startpoint a) True s)))))))
        = metadata_text a (state s)"
    by (rule metadata_text_cong) (simp add: ops)
  then show ?thesis
    by (simp add: prepare_acquisition_def write_metadata_def ops)
qed

lemma close_acquisition_fields:
  "image_count (close_acquisition a s) = image_count s"
  "acquisition_count (close_acquisition a s) = Suc (acquisition_count s)"
  "total_acquisition_count (close_acquisition a s) = total_acquisition_count s"
  "total_image_count (close_acquisition a s) = total_image_count s"
  "stopflag (close_acquisition a s) = stopflag s"
  "pending (close_acquisition a s) = pending s"
  "shutter_left (close_acquisition a s) = shutter_left s"
  "shutter_right (close_acquisition a s) = shutter_right s"
  "state (close_acquisition a s) = state s"
  "trace (close_acquisition a s) =
     trace s @ (if stopflag s then [] else [MoveAbsoluteAndWait (Startpoint a), CloseTasks])
       @ [EndImageSeries]"
  by (simp_all add: close_acquisition_def ops)

lemma planes_loop_count_end:
  "count_list (trace (planes_loop a st is s)) EndImageSeries =
     count_list (trace s) EndImageSeries + (if breaks a st is s then 1 else 0)"
  by (induction "is" arbitrary: s) (simp_all add: plane_count ops)

lemma planes_loop_stopflag:
  "breaks a st is s \<Longrightarrow> stopflag (planes_loop a st is s)"
  by (induction "is" arbitrary: s) (simp_all add: ops)

lemma run_acquisition_halted:
  "stopflag s \<Longrightarrow>
   run_acquisition a s =
     close_shutters (if planes a = 0 then open_shutters s
                     else emit EndImageSeries (close_image_series (open_shutters s)))"
  by (simp add: run_acquisition_def Let_def halted_planes_loop open_shutters_fields)

lemma run_acquisition_quiet:
  "\<not> stopflag s \<Longrightarrow> stop_free (take (planes a) (pending s)) \<Longrightarrow>
   run_acquisition a s =
     close_shutters (fold (plane a (planes a)) [0..<planes a] (open_shutters s))"
  by (simp add: run_acquisition_def Let_def quiet_planes_loop open_shutters_fields)

lemma stopping_planes_loop:
  "\<not> stopflag s \<Longrightarrow> pending s = q @ b # rest \<Longrightarrow> stop_free q \<Longrightarrow> StopRequest \<in> set b \<Longrightarrow>
   length is = Suc (length q) \<Longrightarrow> js \<noteq> [] \<Longrightarrow>
   planes_loop a st (is @ js) s = emit EndImageSeries (close_image_series (fold (plane a st) is s))
   \<and> halted (fold (plane a st) is s)
   \<and> pending (fold (plane a st) is s) = rest"
proof (induction q arbitrary: "is" s)
  case Nil
  then obtain i where i: "is = [i]"
    by (cases "is") auto
  obtain j js' where js: "js = j # js'"
    using Nil.prems(6) by (cases js) auto
  have "stopflag (plane a st i s)"
    using Nil.prems by (simp add: plane_fields)
  moreover have "state (plane a st i s) ''state'' = PStr ''idle''"
    using Nil.prems by (simp add: plane_idle)
  ultimately show ?case
    using Nil.prems i js by (simp add: halted_def plane_fields)
next
  case (Cons q0 q)
  then obtain i is' where i: "is = i # is'" and len: "length is' = Suc (length q)"
    by (cases "is") auto
  have a: "\<not> stopflag (plane a st i s)"
    using Cons.prems by (simp add: plane_fields stop_free_def)
  have b: "pending (plane a st i s) = q @ b # rest"
    using Cons.prems by (simp add: plane_fields)
  have c: "stop_free q"
    using Cons.prems by (simp add: stop_free_def)
  show ?case
    using Cons.IH [OF a b c Cons.prems(4) len Cons.prems(6)] Cons.prems(1) i by simp
qed

lemma files_of_append: "files_of (xs @ ys) = files_of xs @ files_of ys"
  by (induction xs rule: files_of.induct) simp_all

lemma files_handler: "files_of (trace (state_request_handler r s)) = files_of (trace s)"
  by (cases r) (simp_all add: ops files_of_append state_request_handler.simps)

lemma files_fold_handler:
  "files_of (trace (fold state_request_handler b s)) = files_of (trace s)"
  by (induction b arbitrary: s) (simp_all add: files_handler)

lemma files_process_events: "files_of (trace (process_events s)) = files_of (trace s)"
  by (simp add: process_events_def files_fold_handler split: list.splits)

lemma files_plane: "files_of (trace (plane a st i s)) = files_of (trace s)"
  by (simp add: plane_def ops process_events_fields files_of_append files_process_events)

lemma files_planes_loop: "files_of (trace (planes_loop a st is s)) = files_of (trace s)"
  by (induction "is" arbitrary: s) (simp_all add: files_plane ops files_of_append)

lemma files_open_events: "files_of (open_events c) = []"
  by (simp add: open_events_def)

lemma files_run_acquisition: "files_of (trace (run_acquisition a s)) = files_of (trace s)"
  by (simp add: run_acquisition_def Let_def close_shutters_fields files_of_append
        files_planes_loop open_shutters_fields files_open_events)

lemma files_close_acquisition: "files_of (trace (close_acquisition a s)) = files_of (trace s)"
  by (simp add: close_acquisition_fields files_of_append)

lemma files_prepare:
  "files_of (trace (prepare_acquisition a s)) =
     files_of (trace s) @ [(metadata_path a, metadata_text a (state s))]"
  by (simp add: prepare_trace files_of_append)

lemma files_acquire:
  "files_of (trace (acquire a s)) =
     files_of (trace s) @ [(metadata_path a, metadata_text a (state s))]"
  by (simp add: acquire_def files_close_acquisition files_run_acquisition files_prepare)

lemma files_run_acquisition_list:
  "map fst (files_of (trace (run_acquisition_list acqs s))) =
     map fst (files_of (trace s)) @ map metadata_path acqs"
  by (induction acqs arbitrary: s) (simp_all add: files_acquire)

lemma count_prepare_start:
  "count_list (trace (prepare_acquisition a s)) StartTasks = count_list (trace s) StartTasks"
  by (simp add: prepare_trace)

lemma count_open_events_end: "count_list (open_events c) EndImageSeries = 0"
  by (simp add: open_events_def)

lemma acquire_halted_trace:
  "stopflag s \<Longrightarrow>
   trace (acquire a s) =
     trace s @
       [MoveAbsoluteAndWait (Startpoint a),
        StateRequestAndWait ''filter'' (PStr (filter_acq a)),
        StateRequestAndWait ''zoom'' (zoom a),
        LaserEnable (laser a),
        StateRequestAndWait ''laser'' (laser a),
        StateRequestAndWait ''intensity'' (intensity a),
        PrepareImageSeries a,
        CreateTasks, WriteWaveformsToTasks,
        WriteFile (metadata_path a) (metadata_text a (state s))]
       @ open_events (shutter a)
       @ (if planes a = 0 then [] else [CloseTasks, EndImageSeries])
       @ [ShutterLeftClose, ShutterRightClose, EndImageSeries]"
  by (simp add: acquire_def run_acquisition_halted prepare_fields prepare_trace
        close_acquisition_fields close_shutters_fields open_shutters_fields
        emit_def close_image_series_def)

lemma acquire_halted_fields:
  "stopflag s \<Longrightarrow> stopflag (acquire a s)"
  "stopflag s \<Longrightarrow> image_count (acquire a s) = image_count s"
  "stopflag s \<Longrightarrow> pending (acquire a s) = pending s"
  "stopflag s \<Longrightarrow> state (acquire a s) ''state'' = state s ''state''"
  by (simp_all add: acquire_def run_acquisition_halted prepare_fields
        close_acquisition_fields close_shutters_fields open_shutters_fields
        emit_def close_image_series_def)

lemma acquire_halted_state:
  "stopflag s \<Longrightarrow>
   k \<notin> {''shutterconfig'', ''filter'', ''zoom'', ''laser'', ''intensity'', ''shutterstate'', ''state''} \<Longrightarrow>
   state (acquire a s) k = state s k"
  by (simp add: acquire_def run_acquisition_halted prepare_fields prepare_state
        close_acquisition_fields close_shutters_fields open_shutters_fields
        emit_def close_image_series_def)

lemma list_halted_fields:
  "stopflag s \<Longrightarrow> stopflag (run_acquisition_list acqs s)"
  "stopflag s \<Longrightarrow> image_count (run_acquisition_list acqs s) = image_count s"
  "stopflag s \<Longrightarrow> state (run_acquisition_list acqs s) ''state'' = state s ''state''"
  by (induction acqs arbitrary: s, simp_all add: acquire_halted_fields)+

lemma list_halted_state:
  "stopflag s \<Longrightarrow>
   k \<notin> {''shutterconfig'', ''filter'', ''zoom'', ''laser'', ''intensity'', ''shutterstate'', ''state''} \<Longrightarrow>
   state (run_acquisition_list acqs s) k = state s k"
  by (induction acqs arbitrary: s) (simp_all add: acquire_halted_fields acquire_halted_state)

lemma list_halted_extends:
  "stopflag s \<Longrightarrow> \<exists>tl. trace (run_acquisition_list acqs s) = trace s @ tl"
proof (induction acqs arbitrary: s)
  case Nil
  then show ?case by simp
next
  case (Cons a acqs)
  have "stopflag (acquire a s)"
    using Cons.prems by (simp add: acquire_halted_fields)
  then obtain tl where "trace (run_acquisition_list acqs (acquire a s)) = trace (acquire a s) @ tl"
    using Cons.IH by blast
  then show ?case
    using Cons.prems by (simp add: acquire_halted_trace)
qed

lemma run_acquisition_list_append:
  "run_acquisition_list (xs @ ys) s = run_acquisition_list ys (run_acquisition_list xs s)"
  by (induction xs arbitrary: s) simp_all

section \<open>Shutters\<close>

text \<open>
  C8. With a shutter configuration other than \<^verbatim>\<open>'Both'\<close>, \<^verbatim>\<open>'Left'\<close> and \<^verbatim>\<open>'Right'\<close>,
  \<^verbatim>\<open>open_shutters\<close> opens the left and the right shutter and sets the flag
  \<^verbatim>\<open>'shutterstate'\<close> of the shared state to true.
\<close>

theorem open_shutters_fallback:
  assumes "state s ''shutterconfig'' \<notin> {PStr ''Both'', PStr ''Left'', PStr ''Right''}"
  shows "shutter_left (open_shutters s) \<and> shutter_right (open_shutters s)
    \<and> state (open_shutters s) ''shutterstate'' = PBool True"
  using assms by (simp add: ops)

theorem open_shutters_fallback_witness:
  "state (init_core (\<lambda>k. PStr ''Top'') [] []) ''shutterconfig''
      \<notin> {PStr ''Both'', PStr ''Left'', PStr ''Right''}
   \<and> shutter_left (open_shutters (init_core (\<lambda>k. PStr ''Top'') [] []))
   \<and> shutter_right (open_shutters (init_core (\<lambda>k. PStr ''Top'') [] []))
   \<and> state (open_shutters (init_core (\<lambda>k. PStr ''Top'') [] [])) ''shutterstate'' = PBool True"
proof -
  have h: "state (init_core (\<lambda>k. PStr ''Top'') [] []) ''shutterconfig''
      \<notin> {PStr ''Both'', PStr ''Left'', PStr ''Right''}"
    by (simp add: init_core_def)
  show ?thesis
    using h open_shutters_fallback [OF h] by simp
qed

section \<open>The alignment mode\<close>

lemma alignment_pass_raises:
  "alignment_pass s =
     Inl (NameError ''QApplication'',
          shutter_right_close (snap_image (shutter_right_open
            (shutter_left_close (snap_image (shutter_left_open s))))))"
  by (simp add: alignment_pass_def name_bound_def module_names_def)

text \<open>
  C6. The first pass of the loop of \<^verbatim>\<open>lightsheet_alignment_mode\<close> opens the left
  shutter, runs one cycle, closes the left shutter, does the same on the right, and then
  raises \<^verbatim>\<open>NameError\<close> on the name \<^verbatim>\<open>QApplication\<close>: the exception leaves the loop, which
  does not come to a second pass.
\<close>

theorem lightsheet_alignment_mode_raises:
  "\<exists>s'. lightsheet_alignment_mode s = Inl (NameError ''QApplication'', s')
     \<and> trace s' = trace s @
         [ShutterLeftOpen,
          CreateTasks, WriteWaveformsToTasks, StartTasks, RunTasks, StopTasks, CloseTasks,
          ShutterLeftClose,
          ShutterRightOpen,
          CreateTasks, WriteWaveformsToTasks, StartTasks, RunTasks, StopTasks, CloseTasks,
          ShutterRightClose]
     \<and> \<not> stopflag s'"
  by (simp add: lightsheet_alignment_mode_def alignment_loop.simps alignment_pass_raises ops)

section \<open>Scripts return to idle\<close>



end
